theory Spec2Isabelle
  imports Complex_Main "HOL-Library.Sublist" "HOL-Library.AList"
begin

section \<open>Values held by a DataFrame\<close>

text \<open>
  The function \<^verbatim>\<open>process_gcs_csv_to_bq\<close> of \<^verbatim>\<open>cloud_function_source/main.py\<close> reads a
  CSV object, rewrites some columns of the parsed pandas DataFrame and appends the result to
  a BigQuery table. The model follows the source statement by statement.

  A non-missing number of a column is a finite value or one of the two infinities; the
  finite floating-point values are identified with the reals they denote (the only
  arithmetic the source does on them is the exact comparison \<^verbatim>\<open>> 100.0\<close>). NaN, NaT
  and None are the single missing marker \<open>NA\<close>.
\<close>

datatype num = Fin real | PInf | NInf

text \<open>\<^verbatim>\<open>x > r\<close> for a finite right operand.\<close>

fun num_gt :: "num \<Rightarrow> real \<Rightarrow> bool" where
  "num_gt (Fin x) r = (r < x)"
| "num_gt PInf r = True"
| "num_gt NInf r = False"

text \<open>
  A cell: missing, a string, a number, a boolean, a timezone-aware UTC timestamp
  (\<open>Ts t\<close>, the instant \<open>t\<close> counted from the epoch) or a naive datetime (\<open>Dt t\<close>, the
  calendar fields that the UTC clock shows at instant \<open>t\<close>, with no zone attached).
\<close>

datatype cell = NA | Str string | Num num | Bool bool | Ts int | Dt int

datatype exn =
    ValueError
  | FileNotFoundError
  | KeyError string
  | UnboundLocalError
  | LibraryError string

section \<open>DataFrames\<close>

text \<open>
  A DataFrame is column-oriented: an ordered list of named columns over a common index of
  \<open>height\<close> rows. pandas keeps every column as long as the index and \<^verbatim>\<open>read_csv\<close> makes
  the column names distinct; \<open>wf_frame\<close> records both.
\<close>

record frame =
  height :: nat
  cols :: "(string \<times> cell list) list"

definition wf_frame :: "frame \<Rightarrow> bool" where
  "wf_frame df \<longleftrightarrow>
     distinct (map fst (cols df)) \<and> list_all (\<lambda>p. length (snd p) = height df) (cols df)"

text \<open>\<^verbatim>\<open>df[k]\<close>: the column, or KeyError.\<close>

definition getcol :: "frame \<Rightarrow> string \<Rightarrow> exn + cell list" where
  "getcol df k = (case map_of (cols df) k of None \<Rightarrow> Inl (KeyError k) | Some c \<Rightarrow> Inr c)"

text \<open>
  \<^verbatim>\<open>df.loc[:, k] = c\<close> with a Series \<open>c\<close> over the frame's own index: an existing column
  is overwritten where it stands, a new label is appended as the last column.
\<close>

definition setcol :: "frame \<Rightarrow> string \<Rightarrow> cell list \<Rightarrow> frame" where
  "setcol df k c = df\<lparr>cols := AList.update k c (cols df)\<rparr>"

text \<open>\<^verbatim>\<open>df.loc[:, k] = v\<close> with a scalar: the value is broadcast to every row.\<close>

definition setcol_scalar :: "frame \<Rightarrow> string \<Rightarrow> cell \<Rightarrow> frame" where
  "setcol_scalar df k v = setcol df k (replicate (height df) v)"

text \<open>\<^verbatim>\<open>df[[k1, ..., kn]]\<close>: a new frame of the named columns in the order asked for.\<close>

fun select_cols :: "frame \<Rightarrow> string list \<Rightarrow> exn + (string \<times> cell list) list" where
  "select_cols df [] = Inr []"
| "select_cols df (k # ks) =
     (case getcol df k of
        Inl e \<Rightarrow> Inl e
      | Inr c \<Rightarrow> (case select_cols df ks of Inl e \<Rightarrow> Inl e | Inr r \<Rightarrow> Inr ((k, c) # r)))"

definition select :: "frame \<Rightarrow> string list \<Rightarrow> exn + frame" where
  "select df ks =
     (case select_cols df ks of Inl e \<Rightarrow> Inl e | Inr r \<Rightarrow> Inr \<lparr>height = height df, cols = r\<rparr>)"

text \<open>Row \<open>i\<close> of a frame: the cells at index \<open>i\<close>, column by column, under their names.\<close>

type_synonym row = "(string \<times> cell) list"

definition row_at :: "frame \<Rightarrow> nat \<Rightarrow> row" where
  "row_at df i = map (\<lambda>(k, c). (k, c ! i)) (cols df)"

definition rows_of :: "frame \<Rightarrow> row list" where
  "rows_of df = map (row_at df) [0..<height df]"

section \<open>Strings\<close>

text \<open>
  A string is the list of the bytes of its UTF-8 encoding. \<^verbatim>\<open>str.lower\<close> is used by the
  source only to compare the end of the object key with \<^verbatim>\<open>.csv\<close>; no letter outside
  ASCII lowercases to an ASCII letter of that suffix, so the case mapping of the ASCII
  letters decides the test.
\<close>

definition lower_char :: "char \<Rightarrow> char" where
  "lower_char c =
     (let n = (of_char c :: nat) in if 65 \<le> n \<and> n \<le> 90 then char_of (n + 32) else c)"

definition lower :: "string \<Rightarrow> string" where
  "lower s = map lower_char s"

text \<open>
  \<^verbatim>\<open>str.upper\<close> on the strings that are ASCII throughout. On other strings \<^verbatim>\<open>str.upper\<close>
  follows the Unicode case mappings (the long s, U+017F, becomes \<^verbatim>\<open>S\<close>; the dotless i,
  U+0131, becomes \<^verbatim>\<open>I\<close>), and the model takes the whole of it as a parameter of the
  library, \<open>upper_of\<close> below.
\<close>

definition ascii_upper_char :: "char \<Rightarrow> char" where
  "ascii_upper_char c =
     (let n = (of_char c :: nat) in if 97 \<le> n \<and> n \<le> 122 then char_of (n - 32) else c)"

definition ascii_upper :: "string \<Rightarrow> string" where
  "ascii_upper s = map ascii_upper_char s"

definition is_ascii :: "string \<Rightarrow> bool" where
  "is_ascii s \<longleftrightarrow> list_all (\<lambda>c. (of_char c :: nat) < 128) s"

text \<open>\<^verbatim>\<open>s.endswith(t)\<close>.\<close>

definition endswith :: "string \<Rightarrow> string \<Rightarrow> bool" where
  "endswith s t = suffix t s"

section \<open>The pandas conversions\<close>

text \<open>
  The parsers of pandas and of the Python runtime are parameters of the model: how a cell
  is read as a timestamp or as a number, how a non-string value prints, how a string is
  uppercased, and \<^verbatim>\<open>read_csv\<close> itself.

  \<^verbatim>\<open>pd.to_datetime\<close> is one call on a whole column, and what it makes of a cell depends on
  the column: pandas 2 infers one format from the first cell that is not missing and reads
  every cell with it, so that a cell which would parse alone becomes NaT after a cell of
  another format. \<open>datetime_of L s c\<close> is therefore what the call on the column \<open>s\<close>
  makes of its cell \<open>c\<close>.
\<close>

record pandas =
  read_csv :: "string \<Rightarrow> exn + frame"
  datetime_of :: "cell list \<Rightarrow> cell \<Rightarrow> int option"
  numeric_of :: "cell \<Rightarrow> num option"
  str_of :: "cell \<Rightarrow> string"
  upper_of :: "string \<Rightarrow> string"

text \<open>
  One cell of \<^verbatim>\<open>pd.to_datetime(s, ..., utc=True)\<close>: a missing value stays missing, an
  aware UTC timestamp is kept, anything else goes through the parser of the column.
\<close>

fun to_datetime_elem :: "pandas \<Rightarrow> cell list \<Rightarrow> cell \<Rightarrow> int option" where
  "to_datetime_elem L s NA = None"
| "to_datetime_elem L s (Ts t) = Some t"
| "to_datetime_elem L s c = datetime_of L s c"

text \<open>\<^verbatim>\<open>pd.to_datetime(s, errors='coerce', utc=True)\<close>.\<close>

definition to_datetime_coerce :: "pandas \<Rightarrow> cell list \<Rightarrow> cell list" where
  "to_datetime_coerce L s =
     map (\<lambda>c. case to_datetime_elem L s c of None \<Rightarrow> NA | Some t \<Rightarrow> Ts t) s"

text \<open>
  \<^verbatim>\<open>pd.to_datetime(s, utc=True)\<close>, with the default \<^verbatim>\<open>errors='raise'\<close>: a missing value
  stays NaT, a value that does not parse raises. The first argument of the loop is the
  whole column, the second the cells still to convert.
\<close>

fun to_datetime_cells :: "pandas \<Rightarrow> cell list \<Rightarrow> cell list \<Rightarrow> exn + cell list" where
  "to_datetime_cells L s [] = Inr []"
| "to_datetime_cells L s (c # cs) =
     (if c = NA
      then (case to_datetime_cells L s cs of Inl e \<Rightarrow> Inl e | Inr r \<Rightarrow> Inr (NA # r))
      else case to_datetime_elem L s c of
        None \<Rightarrow> Inl ValueError
      | Some t \<Rightarrow>
          (case to_datetime_cells L s cs of Inl e \<Rightarrow> Inl e | Inr r \<Rightarrow> Inr (Ts t # r)))"

definition to_datetime_raise :: "pandas \<Rightarrow> cell list \<Rightarrow> exn + cell list" where
  "to_datetime_raise L s = to_datetime_cells L s s"

text \<open>\<^verbatim>\<open>s.fillna(v)\<close>.\<close>

definition fillna :: "cell \<Rightarrow> cell list \<Rightarrow> cell list" where
  "fillna v s = map (\<lambda>c. if c = NA then v else c) s"

text \<open>
  One element of \<^verbatim>\<open>pd.to_numeric(..., errors='coerce')\<close>: \<open>None\<close> is NaN.
\<close>

fun to_numeric_elem :: "pandas \<Rightarrow> cell \<Rightarrow> num option" where
  "to_numeric_elem L NA = None"
| "to_numeric_elem L (Num x) = Some x"
| "to_numeric_elem L c = numeric_of L c"

definition to_numeric_coerce :: "pandas \<Rightarrow> cell list \<Rightarrow> cell list" where
  "to_numeric_coerce L s = map (\<lambda>c. case to_numeric_elem L c of None \<Rightarrow> NA | Some x \<Rightarrow> Num x) s"

text \<open>\<^verbatim>\<open>s.astype(str)\<close>: a string is kept, NaN prints as \<^verbatim>\<open>nan\<close>.\<close>

fun astype_str_elem :: "pandas \<Rightarrow> cell \<Rightarrow> string" where
  "astype_str_elem L NA = ''nan''"
| "astype_str_elem L (Str s) = s"
| "astype_str_elem L c = str_of L c"

definition astype_str :: "pandas \<Rightarrow> cell list \<Rightarrow> cell list" where
  "astype_str L s = map (\<lambda>c. Str (astype_str_elem L c)) s"

text \<open>\<^verbatim>\<open>s.str.upper()\<close>: \<^verbatim>\<open>str.upper\<close> of each string, NaN for any other element.\<close>

fun str_upper_elem :: "pandas \<Rightarrow> cell \<Rightarrow> cell" where
  "str_upper_elem L (Str s) = Str (upper_of L s)"
| "str_upper_elem L c = NA"

definition str_upper :: "pandas \<Rightarrow> cell list \<Rightarrow> cell list" where
  "str_upper L s = map (str_upper_elem L) s"

text \<open>\<^verbatim>\<open>s.map(d)\<close> with a dict of strings: NaN for an element that is not a key.\<close>

fun map_dict_elem :: "(string \<rightharpoonup> string) \<Rightarrow> cell \<Rightarrow> cell" where
  "map_dict_elem d (Str s) = (case d s of None \<Rightarrow> NA | Some v \<Rightarrow> Str v)"
| "map_dict_elem d c = NA"

definition map_dict :: "(string \<rightharpoonup> string) \<Rightarrow> cell list \<Rightarrow> cell list" where
  "map_dict d s = map (map_dict_elem d) s"

text \<open>\<^verbatim>\<open>s > r\<close>: elementwise, False on NaN.\<close>

fun gt_elem :: "real \<Rightarrow> cell \<Rightarrow> cell" where
  "gt_elem r (Num x) = Bool (num_gt x r)"
| "gt_elem r c = Bool False"

definition series_gt :: "cell list \<Rightarrow> real \<Rightarrow> cell list" where
  "series_gt s r = map (gt_elem r) s"

section \<open>The world outside the function\<close>

text \<open>
  Cloud Storage, the system clock and BigQuery are the environment. A world holds what
  they answer and what they store; the function takes a world and returns the world it
  leaves behind. The diagnostic \<^verbatim>\<open>print\<close> lines are not modelled.
\<close>

datatype write_disposition = WRITE_APPEND | WRITE_TRUNCATE | WRITE_EMPTY

record load_job =
  destination :: string
  payload :: "row list"
  disposition :: write_disposition

datatype call =
    Blob_exists string string
  | Blob_download string string
  | Load_table load_job
  | Job_result load_job
  | Get_table string

text \<open>
  \<open>clock w k\<close> is what the system clock shows at the \<open>k\<close>-th reading; \<open>ticks w\<close> counts
  the readings made so far. \<open>tables\<close> are the rows stored in the warehouse, \<open>pending\<close>
  the load jobs submitted and not yet finished, \<open>calls\<close> the requests sent to the two
  services, oldest first.
\<close>

record world =
  blob_exists :: "string \<Rightarrow> string \<Rightarrow> exn + bool"
  blob_text :: "string \<Rightarrow> string \<Rightarrow> exn + string"
  clock :: "nat \<Rightarrow> int"
  ticks :: nat
  tables :: "string \<Rightarrow> row list"
  pending :: "load_job list"
  submit_fault :: "load_job \<Rightarrow> exn option"
  job_fault :: "load_job \<Rightarrow> exn option"
  get_table_fault :: "string \<Rightarrow> exn option"
  calls :: "call list"

text \<open>\<^verbatim>\<open>datetime.now(timezone.utc)\<close> and \<^verbatim>\<open>datetime.utcnow()\<close> both read the system clock.\<close>

definition read_clock :: "world \<Rightarrow> int \<times> world" where
  "read_clock w = (clock w (ticks w), w\<lparr>ticks := Suc (ticks w)\<rparr>)"

section \<open>Configuration\<close>

definition TARGET_BIGQUERY_PROJECT_ID :: string where
  "TARGET_BIGQUERY_PROJECT_ID = ''annular-net-386720''"

definition TARGET_BIGQUERY_DATASET_ID :: string where
  "TARGET_BIGQUERY_DATASET_ID = ''mp2_pipeline_output''"

definition TARGET_BIGQUERY_TABLE_ID :: string where
  "TARGET_BIGQUERY_TABLE_ID = ''transformed_user_events''"

definition table_id_full :: string where
  "table_id_full =
     TARGET_BIGQUERY_PROJECT_ID @ ''.'' @ TARGET_BIGQUERY_DATASET_ID @ ''.'' @ TARGET_BIGQUERY_TABLE_ID"

definition country_mapping :: "string \<rightharpoonup> string" where
  "country_mapping =
     map_of [(''MALAYSIA'', ''MY''), (''SINGAPORE'', ''SG''), (''THAILAND'', ''TH''),
             (''INDONESIA'', ''ID'')]"

definition target_columns :: "string list" where
  "target_columns =
     [''user_id'', ''event_timestamp'', ''country_code'', ''value'', ''is_high_value'',
      ''processing_datetime'']"

section \<open>The transformation (lines 93 to 134)\<close>

text \<open>Line 97: parse the timestamps, NaT where one does not parse.\<close>

definition parse_timestamps :: "pandas \<Rightarrow> frame \<Rightarrow> exn + frame" where
  "parse_timestamps L df =
     (case getcol df ''event_timestamp'' of
        Inl e \<Rightarrow> Inl e
      | Inr s \<Rightarrow> Inr (setcol df ''event_timestamp'' (to_datetime_coerce L s)))"

text \<open>
  Line 103: \<^verbatim>\<open>df['event_timestamp'].fillna(value=current_utc_for_fill, inplace=True)\<close>.
  The source's comment takes the in-place fill of the selected Series to reach the frame,
  and so does the model.
\<close>

definition fill_timestamps :: "int \<Rightarrow> frame \<Rightarrow> exn + frame" where
  "fill_timestamps now df =
     (case getcol df ''event_timestamp'' of
        Inl e \<Rightarrow> Inl e
      | Inr s \<Rightarrow> Inr (setcol df ''event_timestamp'' (fillna (Ts now) s)))"

text \<open>Line 107: the second \<^verbatim>\<open>to_datetime\<close>, which raises on a value it cannot read.\<close>

definition normalize_timestamps :: "pandas \<Rightarrow> frame \<Rightarrow> exn + frame" where
  "normalize_timestamps L df =
     (case getcol df ''event_timestamp'' of
        Inl e \<Rightarrow> Inl e
      | Inr s \<Rightarrow>
          (case to_datetime_raise L s of
             Inl e \<Rightarrow> Inl e
           | Inr s' \<Rightarrow> Inr (setcol df ''event_timestamp'' s')))"

text \<open>Line 118.\<close>

definition code_countries :: "pandas \<Rightarrow> frame \<Rightarrow> exn + frame" where
  "code_countries L df =
     (case getcol df ''country'' of
        Inl e \<Rightarrow> Inl e
      | Inr s \<Rightarrow>
          Inr (setcol df ''country_code''
                 (fillna (Str ''OT'') (map_dict country_mapping (str_upper L (astype_str L s))))))"

text \<open>Line 122.\<close>

definition coerce_values :: "pandas \<Rightarrow> frame \<Rightarrow> exn + frame" where
  "coerce_values L df =
     (case getcol df ''value'' of
        Inl e \<Rightarrow> Inl e
      | Inr s \<Rightarrow> Inr (setcol df ''value'' (fillna (Num (Fin 0)) (to_numeric_coerce L s))))"

text \<open>Line 123.\<close>

definition flag_high_values :: "frame \<Rightarrow> exn + frame" where
  "flag_high_values df =
     (case getcol df ''value'' of
        Inl e \<Rightarrow> Inl e
      | Inr s \<Rightarrow> Inr (setcol df ''is_high_value'' (series_gt s 100)))"

text \<open>
  Line 128: the naive datetime of one clock reading, broadcast to every row. pandas refuses
  to add a new column from a scalar to a frame that has no rows (``cannot set a frame with
  no defined index and a scalar''); a column that is already there is overwritten whatever
  the number of rows.
\<close>

definition stamp_processing :: "int \<Rightarrow> frame \<Rightarrow> exn + frame" where
  "stamp_processing t df =
     (if height df = 0 \<and> ''processing_datetime'' \<notin> set (map fst (cols df))
      then Inl ValueError
      else Inr (setcol_scalar df ''processing_datetime'' (Dt t)))"

text \<open>Line 134.\<close>

definition project :: "frame \<Rightarrow> exn + frame" where
  "project df = select df target_columns"

text \<open>
  The statements in the order of the source. The clock is read twice: at line 101, after
  the timestamps have been parsed, for the value that fills the gaps, and at line 128,
  after the country and value rules, for \<^verbatim>\<open>processing_datetime\<close>. An exception leaves
  the world as it was when it was raised.
\<close>

definition transform :: "pandas \<Rightarrow> frame \<Rightarrow> world \<Rightarrow> (exn + frame) \<times> world" where
  "transform L df w =
     (case parse_timestamps L df of
        Inl e \<Rightarrow> (Inl e, w)
      | Inr df1 \<Rightarrow>
          (case read_clock w of (current_utc_for_fill, w1) \<Rightarrow>
            (case fill_timestamps current_utc_for_fill df1 of
               Inl e \<Rightarrow> (Inl e, w1)
             | Inr df2 \<Rightarrow>
            (case normalize_timestamps L df2 of
               Inl e \<Rightarrow> (Inl e, w1)
             | Inr df3 \<Rightarrow>
            (case code_countries L df3 of
               Inl e \<Rightarrow> (Inl e, w1)
             | Inr df4 \<Rightarrow>
            (case coerce_values L df4 of
               Inl e \<Rightarrow> (Inl e, w1)
             | Inr df5 \<Rightarrow>
            (case flag_high_values df5 of
               Inl e \<Rightarrow> (Inl e, w1)
             | Inr df6 \<Rightarrow>
                 (case read_clock w1 of (utcnow, w2) \<Rightarrow>
                   (case stamp_processing utcnow df6 of
                      Inl e \<Rightarrow> (Inl e, w2)
                    | Inr df7 \<Rightarrow>
                   (case project df7 of
                      Inl e \<Rightarrow> (Inl e, w2)
                    | Inr final_df \<Rightarrow> (Inr final_df, w2)))))))))))"

section \<open>The invocation\<close>

record event =
  bucket :: string
  name :: string
  event_id :: string
  event_type :: string

text \<open>
  Lines 49 to 83: the check of the two names, then the existence test and the download.
  Every \<^verbatim>\<open>except\<close> clause prints and raises the exception again.
\<close>

definition download :: "event \<Rightarrow> world \<Rightarrow> (exn + string) \<times> world" where
  "download ev w =
     (if bucket ev = [] \<or> name ev = [] then (Inl ValueError, w)
      else
        (case blob_exists w (bucket ev) (name ev) of
           Inl e \<Rightarrow> (Inl e, w\<lparr>calls := calls w @ [Blob_exists (bucket ev) (name ev)]\<rparr>)
         | Inr found \<Rightarrow>
             if \<not> found
             then (Inl FileNotFoundError,
                   w\<lparr>calls := calls w @ [Blob_exists (bucket ev) (name ev)]\<rparr>)
             else
               (case blob_text w (bucket ev) (name ev) of
                  Inl e \<Rightarrow>
                    (Inl e,
                     w\<lparr>calls := calls w @ [Blob_exists (bucket ev) (name ev),
                                            Blob_download (bucket ev) (name ev)]\<rparr>)
                | Inr csv_data_string \<Rightarrow>
                    (Inr csv_data_string,
                     w\<lparr>calls := calls w @ [Blob_exists (bucket ev) (name ev),
                                            Blob_download (bucket ev) (name ev)]\<rparr>))))"

text \<open>
  What the warehouse does with a finished load job, after the comment at lines 161 and
  162: WRITE_APPEND adds the new rows to the table, WRITE_TRUNCATE deletes the existing
  rows first. WRITE_EMPTY writes to an empty table only.
\<close>

fun apply_load :: "write_disposition \<Rightarrow> row list \<Rightarrow> row list \<Rightarrow> exn + row list" where
  "apply_load WRITE_APPEND old new = Inr (old @ new)"
| "apply_load WRITE_TRUNCATE old new = Inr new"
| "apply_load WRITE_EMPTY old new =
     (if old = [] then Inr new else Inl (LibraryError ''Conflict''))"

text \<open>
  \<^verbatim>\<open>load_table_from_dataframe\<close> submits a job, which stays pending in the warehouse.
\<close>

definition load_table_from_dataframe ::
    "frame \<Rightarrow> string \<Rightarrow> write_disposition \<Rightarrow> world \<Rightarrow> (exn + load_job) \<times> world" where
  "load_table_from_dataframe df tid d w =
     (let job = \<lparr>destination = tid, payload = rows_of df, disposition = d\<rparr>;
          w1 = w\<lparr>calls := calls w @ [Load_table job]\<rparr>
      in case submit_fault w job of
           Some e \<Rightarrow> (Inl e, w1)
         | None \<Rightarrow> (Inr job, w1\<lparr>pending := job # pending w1\<rparr>))"

text \<open>
  \<^verbatim>\<open>job.result()\<close> returns when the job has finished: the job is no longer pending, and
  either it failed and wrote nothing, or its rows are in the table.
\<close>

definition job_result :: "load_job \<Rightarrow> world \<Rightarrow> (exn + unit) \<times> world" where
  "job_result job w =
     (let w1 = w\<lparr>calls := calls w @ [Job_result job], pending := remove1 job (pending w)\<rparr>
      in case job_fault w job of
           Some e \<Rightarrow> (Inl e, w1)
         | None \<Rightarrow>
             (case apply_load (disposition job) (tables w (destination job)) (payload job) of
                Inl e \<Rightarrow> (Inl e, w1)
              | Inr rows' \<Rightarrow>
                  (Inr (), w1\<lparr>tables := (tables w)(destination job := rows')\<rparr>)))"

definition get_table :: "string \<Rightarrow> world \<Rightarrow> (exn + unit) \<times> world" where
  "get_table tid w =
     (let w1 = w\<lparr>calls := calls w @ [Get_table tid]\<rparr>
      in case get_table_fault w tid of Some e \<Rightarrow> (Inl e, w1) | None \<Rightarrow> (Inr (), w1))"

text \<open>Lines 156 to 191.\<close>

definition load :: "frame \<Rightarrow> world \<Rightarrow> (exn + unit) \<times> world" where
  "load final_df w =
     (case load_table_from_dataframe final_df table_id_full WRITE_APPEND w of
        (Inl e, w1) \<Rightarrow> (Inl e, w1)
      | (Inr job, w1) \<Rightarrow>
          (case job_result job w1 of
             (Inl e, w2) \<Rightarrow> (Inl e, w2)
           | (Inr u, w2) \<Rightarrow> get_table table_id_full w2))"

text \<open>
  Lines 141 to 146, the handler of the transformation block. The function imports
  \<^verbatim>\<open>traceback\<close> inside its own body (lines 80 and 150), which makes the name local to the
  function; neither import has run when line 145 calls \<^verbatim>\<open>traceback.print_exc()\<close>, so the
  handler raises \<^verbatim>\<open>UnboundLocalError\<close> and its \<^verbatim>\<open>raise\<close> at line 146 is never reached.
  The second handler of lines 148 to 153 belongs to the same \<^verbatim>\<open>try\<close> and does not catch
  what the first raises.
\<close>

definition transform_handler :: "exn \<Rightarrow> exn" where
  "transform_handler e = UnboundLocalError"

text \<open>
  The whole function. It returns \<^verbatim>\<open>None\<close> (here the unit value) both when it skips the
  object and when it has loaded it.
\<close>

definition process_gcs_csv_to_bq :: "pandas \<Rightarrow> event \<Rightarrow> world \<Rightarrow> (exn + unit) \<times> world" where
  "process_gcs_csv_to_bq L ev w =
     (if \<not> endswith (lower (name ev)) ''.csv'' then (Inr (), w)
      else
        (case download ev w of
           (Inl e, w1) \<Rightarrow> (Inl e, w1)
         | (Inr csv_data_string, w1) \<Rightarrow>
             (case read_csv L csv_data_string of
                Inl e \<Rightarrow> (Inl (transform_handler e), w1)
              | Inr df \<Rightarrow>
                  (case transform L df w1 of
                     (Inl e, w2) \<Rightarrow> (Inl (transform_handler e), w2)
                   | (Inr final_df, w2) \<Rightarrow> load final_df w2))))"

section \<open>The rules of the transformation, row by row\<close>

text \<open>
  The rules as the specification words them, for one cell and for one row. They are
  compared below with the column pipeline of the source. The timestamp rule takes the raw
  timestamp column as well, since the conversion of a cell depends on it.
\<close>

definition normalized_timestamp :: "pandas \<Rightarrow> cell list \<Rightarrow> int \<Rightarrow> cell \<Rightarrow> int" where
  "normalized_timestamp L s now c =
     (case to_datetime_elem L s c of None \<Rightarrow> now | Some t \<Rightarrow> t)"

definition country_code_of :: "pandas \<Rightarrow> cell \<Rightarrow> string" where
  "country_code_of L c =
     (case country_mapping (upper_of L (astype_str_elem L c)) of
        None \<Rightarrow> ''OT''
      | Some v \<Rightarrow> v)"

definition coerced_value :: "pandas \<Rightarrow> cell \<Rightarrow> num" where
  "coerced_value L c = (case to_numeric_elem L c of None \<Rightarrow> Fin 0 | Some x \<Rightarrow> x)"



text \<open>The same rules, column by column: the frame that a successful run returns.\<close>

definition target_frame ::
    "pandas \<Rightarrow> int \<Rightarrow> int \<Rightarrow> nat \<Rightarrow> cell list \<Rightarrow> cell list \<Rightarrow> cell list \<Rightarrow> cell list \<Rightarrow> frame" where
  "target_frame L now utcnow n us ts cs vs =
     \<lparr>height = n,
      cols = [(''user_id'', us),
              (''event_timestamp'', map (\<lambda>c. Ts (normalized_timestamp L ts now c)) ts),
              (''country_code'', map (\<lambda>c. Str (country_code_of L c)) cs),
              (''value'', map (\<lambda>c. Num (coerced_value L c)) vs),
              (''is_high_value'', map (\<lambda>c. Bool (num_gt (coerced_value L c) 100)) vs),
              (''processing_datetime'', replicate n (Dt utcnow))]\<rparr>"




text \<open>
  What is known of \<^verbatim>\<open>str.upper\<close> without the Unicode tables: on a string that is ASCII
  throughout it changes the letters \<^verbatim>\<open>a\<close> to \<^verbatim>\<open>z\<close> and nothing else.
\<close>

definition upper_on_ascii :: "pandas \<Rightarrow> bool" where
  "upper_on_ascii L \<longleftrightarrow> (\<forall>s. is_ascii s \<longrightarrow> upper_of L s = ascii_upper s)"

section \<open>A concrete run\<close>

text \<open>
  An instance of the library that knows two timestamps, one in ISO 8601 and one written
  month/day/year, and one number. Its \<^verbatim>\<open>to_datetime\<close> works as that of pandas 2 does on
  these strings: the format is guessed from the first cell that is not missing and every
  cell is read with it; when no format can be guessed from that cell, each cell is parsed
  alone. Its \<^verbatim>\<open>str.upper\<close> is that of the ASCII strings.
\<close>

datatype example_format = ISO8601 | Month_day_year

fun guess_format :: "cell \<Rightarrow> example_format option" where
  "guess_format (Str s) =
     (if s = ''2024-01-01T00:00:00Z'' then Some ISO8601
      else if s = ''01/02/2024'' then Some Month_day_year
      else None)"
| "guess_format c = None"

fun parse_alone :: "cell \<Rightarrow> int option" where
  "parse_alone (Str s) =
     (if s = ''2024-01-01T00:00:00Z'' then Some 1704067200
      else if s = ''01/02/2024'' then Some 1704153600
      else None)"
| "parse_alone c = None"

fun first_present :: "cell list \<Rightarrow> cell option" where
  "first_present [] = None"
| "first_present (c # cs) = (if c = NA then first_present cs else Some c)"

definition example_datetime_of :: "cell list \<Rightarrow> cell \<Rightarrow> int option" where
  "example_datetime_of s c =
     (case first_present s of
        None \<Rightarrow> None
      | Some f \<Rightarrow>
          (case guess_format f of
             None \<Rightarrow> parse_alone c
           | Some fmt \<Rightarrow> if guess_format c = Some fmt then parse_alone c else None))"

text \<open>
  A frame with the two rows of the specification's scenarios, a third row with gaps and a
  column the target table does not have, and a world whose clock advances by one at each
  reading.
\<close>

definition example_csv :: string where
  "example_csv =
     ''user_id,event_timestamp,country,value,note\<newline>'' @
     ''u1,not-a-date,malaysia,150,a\<newline>'' @
     ''u2,2024-01-01T00:00:00Z,Vietnam,abc,b\<newline>'' @
     '',,OT,,c\<newline>''"

definition example_frame :: frame where
  "example_frame =
     \<lparr>height = 3,
      cols = [(''user_id'', [Str ''u1'', Str ''u2'', NA]),
              (''event_timestamp'', [Str ''not-a-date'', Str ''2024-01-01T00:00:00Z'', NA]),
              (''country'', [Str ''malaysia'', Str ''Vietnam'', Str ''OT'']),
              (''value'', [Str ''150'', Str ''abc'', NA]),
              (''note'', [Str ''a'', Str ''b'', Str ''c''])]\<rparr>"

definition example_pandas :: pandas where
  "example_pandas =
     \<lparr>read_csv =
        (\<lambda>s. if s = example_csv then Inr example_frame
             else Inl (LibraryError ''ParserError'')),
      datetime_of = example_datetime_of,
      numeric_of = (\<lambda>c. if c = Str ''150'' then Some (Fin 150) else None),
      str_of = (\<lambda>c. ''?''),
      upper_of = ascii_upper\<rparr>"

definition example_world :: world where
  "example_world =
     \<lparr>blob_exists = (\<lambda>b k. Inr True),
      blob_text = (\<lambda>b k. Inr example_csv),
      clock = (\<lambda>k. 1700000000 + int k),
      ticks = 0,
      tables = (\<lambda>t. []),
      pending = [],
      submit_fault = (\<lambda>j. None),
      job_fault = (\<lambda>j. None),
      get_table_fault = (\<lambda>t. None),
      calls = []\<rparr>"

definition example_target :: frame where
  "example_target =
     \<lparr>height = 3,
      cols = [(''user_id'', [Str ''u1'', Str ''u2'', NA]),
              (''event_timestamp'', [Ts 1700000000, Ts 1704067200, Ts 1700000000]),
              (''country_code'', [Str ''MY'', Str ''OT'', Str ''OT'']),
              (''value'', [Num (Fin 150), Num (Fin 0), Num (Fin 0)]),
              (''is_high_value'', [Bool True, Bool False, Bool False]),
              (''processing_datetime'', [Dt 1700000001, Dt 1700000001, Dt 1700000001])]\<rparr>"






text \<open>
  A second world that differs from the first in what the warehouse holds, in the requests
  already sent and in the number of clock readings already made, and whose next two
  readings are those of the first.
\<close>

definition example_world_later :: world where
  "example_world_later =
     example_world
       \<lparr>clock := (\<lambda>k. 1699999995 + int k),
        ticks := 5,
        tables := (\<lambda>t. [[(''user_id'', Str ''u0'')]]),
        calls := [Get_table ''t'']\<rparr>"

text \<open>Events: a CSV object, two objects that are not CSV files, and two without a bucket.\<close>

definition example_event :: event where
  "example_event =
     \<lparr>bucket = ''landing'', name = ''events.csv'', event_id = ''1'',
      event_type = ''google.cloud.storage.object.v1.finalized''\<rparr>"

definition readme_event :: event where
  "readme_event =
     \<lparr>bucket = ''landing'', name = ''README.md'', event_id = ''2'',
      event_type = ''google.cloud.storage.object.v1.finalized''\<rparr>"

definition no_bucket_notes_event :: event where
  "no_bucket_notes_event =
     \<lparr>bucket = '''', name = ''notes.txt'', event_id = ''3'',
      event_type = ''google.cloud.storage.object.v1.finalized''\<rparr>"

definition no_bucket_csv_event :: event where
  "no_bucket_csv_event =
     \<lparr>bucket = '''', name = ''Events.CSV'', event_id = ''4'',
      event_type = ''google.cloud.storage.object.v1.finalized''\<rparr>"

text \<open>
  The run on \<open>example_event\<close> that starts in \<open>example_world_later\<close>: the world after the
  download, the load job, and the world that the run leaves behind.
\<close>

definition example_world_fetched :: world where
  "example_world_fetched =
     example_world_later
       \<lparr>calls := [Get_table ''t'', Blob_exists ''landing'' ''events.csv'',
                  Blob_download ''landing'' ''events.csv'']\<rparr>"

definition example_job :: load_job where
  "example_job =
     \<lparr>destination = table_id_full, payload = rows_of example_target,
      disposition = WRITE_APPEND\<rparr>"

definition example_world_loaded :: world where
  "example_world_loaded =
     example_world_later
       \<lparr>ticks := 7,
        tables := (tables example_world_later)
          (table_id_full := [[(''user_id'', Str ''u0'')]] @ rows_of example_target),
        calls := [Get_table ''t'', Blob_exists ''landing'' ''events.csv'',
                  Blob_download ''landing'' ''events.csv'', Load_table example_job,
                  Job_result example_job, Get_table table_id_full]\<rparr>"

section \<open>The column pipeline computes the row rules\<close>

lemma getcol_setcol_same: "getcol (setcol df k c) k = Inr c"
  by (simp add: getcol_def setcol_def update_conv')

lemma getcol_setcol_other: "k' \<noteq> k \<Longrightarrow> getcol (setcol df k c) k' = getcol df k'"
  by (simp add: getcol_def setcol_def update_conv')

lemma height_setcol: "height (setcol df k c) = height df"
  by (simp add: setcol_def)

lemma colnames_setcol:
  "fst ` set (cols (setcol df k c)) = insert k (fst ` set (cols df))"
  by (simp add: setcol_def dom_update)

lemma to_datetime_cells_all_Ts:
  "to_datetime_cells L s' (map (\<lambda>c. Ts (f c)) s) = Inr (map (\<lambda>c. Ts (f c)) s)"
  by (induction s) simp_all

lemma to_datetime_raise_all_Ts:
  "to_datetime_raise L (map (\<lambda>c. Ts (f c)) s) = Inr (map (\<lambda>c. Ts (f c)) s)"
  by (simp add: to_datetime_raise_def to_datetime_cells_all_Ts)

lemma fill_parse_timestamps:
  "fillna (Ts now) (to_datetime_coerce L s) = map (\<lambda>c. Ts (normalized_timestamp L s now c)) s"
  by (simp add: fillna_def to_datetime_coerce_def normalized_timestamp_def split: option.splits)

lemma country_pipeline:
  "fillna (Str ''OT'') (map_dict country_mapping (str_upper L (astype_str L s)))
     = map (\<lambda>c. Str (country_code_of L c)) s"
  by (simp add: fillna_def map_dict_def str_upper_def astype_str_def country_code_of_def
      split: option.splits)

lemma value_pipeline:
  "fillna (Num (Fin 0)) (to_numeric_coerce L s) = map (\<lambda>c. Num (coerced_value L c)) s"
  by (simp add: fillna_def to_numeric_coerce_def coerced_value_def split: option.splits)

lemma flag_pipeline:
  "series_gt (map (\<lambda>c. Num (coerced_value L c)) s) r
     = map (\<lambda>c. Bool (num_gt (coerced_value L c) r)) s"
  by (simp add: series_gt_def)

lemmas transform_defs =
  transform_def parse_timestamps_def fill_timestamps_def normalize_timestamps_def
  code_countries_def coerce_values_def flag_high_values_def stamp_processing_def
  project_def select_def target_columns_def setcol_scalar_def read_clock_def

lemmas pipeline_simps =
  getcol_setcol_same getcol_setcol_other height_setcol colnames_setcol fill_parse_timestamps
  to_datetime_raise_all_Ts country_pipeline value_pipeline flag_pipeline

lemma transform_columns:
  assumes "getcol df ''user_id'' = Inr us" "getcol df ''event_timestamp'' = Inr ts"
    "getcol df ''country'' = Inr cs" "getcol df ''value'' = Inr vs"
    and "0 < height df \<or> ''processing_datetime'' \<in> set (map fst (cols df))"
  shows "transform L df w =
    (Inr (target_frame L (clock w (ticks w)) (clock w (Suc (ticks w))) (height df) us ts cs vs),
     w\<lparr>ticks := Suc (Suc (ticks w))\<rparr>)"
  using assms by (auto simp: transform_defs pipeline_simps target_frame_def)

lemma transform_no_timestamp:
  "getcol df ''event_timestamp'' = Inl e \<Longrightarrow> transform L df w = (Inl e, w)"
  by (simp add: transform_defs)

lemma transform_no_country:
  "getcol df ''event_timestamp'' = Inr ts \<Longrightarrow> getcol df ''country'' = Inl e \<Longrightarrow>
   transform L df w = (Inl e, w\<lparr>ticks := Suc (ticks w)\<rparr>)"
  by (simp add: transform_defs pipeline_simps)

lemma transform_no_value:
  "getcol df ''event_timestamp'' = Inr ts \<Longrightarrow> getcol df ''country'' = Inr cs \<Longrightarrow>
   getcol df ''value'' = Inl e \<Longrightarrow>
   transform L df w = (Inl e, w\<lparr>ticks := Suc (ticks w)\<rparr>)"
  by (simp add: transform_defs pipeline_simps)

lemma transform_no_rows:
  "getcol df ''event_timestamp'' = Inr ts \<Longrightarrow> getcol df ''country'' = Inr cs \<Longrightarrow>
   getcol df ''value'' = Inr vs \<Longrightarrow>
   \<not> (0 < height df \<or> ''processing_datetime'' \<in> set (map fst (cols df))) \<Longrightarrow>
   transform L df w = (Inl ValueError, w\<lparr>ticks := Suc (Suc (ticks w))\<rparr>)"
  by (simp add: transform_defs pipeline_simps)

lemma transform_no_user_id:
  "getcol df ''event_timestamp'' = Inr ts \<Longrightarrow> getcol df ''country'' = Inr cs \<Longrightarrow>
   getcol df ''value'' = Inr vs \<Longrightarrow>
   0 < height df \<or> ''processing_datetime'' \<in> set (map fst (cols df)) \<Longrightarrow>
   getcol df ''user_id'' = Inl e \<Longrightarrow>
   transform L df w = (Inl e, w\<lparr>ticks := Suc (Suc (ticks w))\<rparr>)"
  by (auto simp: transform_defs pipeline_simps)

text \<open>
  The five ways through the transformation: one for each column that can be missing, one
  for the frame that line 128 refuses, and the way to the end.
\<close>

lemma transform_cases:
  obtains (no_timestamp) e where "getcol df ''event_timestamp'' = Inl e"
      and "transform L df w = (Inl e, w)"
  | (no_country) e where "getcol df ''country'' = Inl e"
      and "transform L df w = (Inl e, w\<lparr>ticks := Suc (ticks w)\<rparr>)"
  | (no_value) e where "getcol df ''value'' = Inl e"
      and "transform L df w = (Inl e, w\<lparr>ticks := Suc (ticks w)\<rparr>)"
  | (no_rows) "\<not> (0 < height df \<or> ''processing_datetime'' \<in> set (map fst (cols df)))"
      and "transform L df w = (Inl ValueError, w\<lparr>ticks := Suc (Suc (ticks w))\<rparr>)"
  | (no_user_id) e where "getcol df ''user_id'' = Inl e"
      and "transform L df w = (Inl e, w\<lparr>ticks := Suc (Suc (ticks w))\<rparr>)"
  | (through) us ts cs vs where "getcol df ''user_id'' = Inr us"
      and "getcol df ''event_timestamp'' = Inr ts" and "getcol df ''country'' = Inr cs"
      and "getcol df ''value'' = Inr vs"
      and "0 < height df \<or> ''processing_datetime'' \<in> set (map fst (cols df))"
      and "transform L df w =
        (Inr (target_frame L (clock w (ticks w)) (clock w (Suc (ticks w))) (height df)
                us ts cs vs),
         w\<lparr>ticks := Suc (Suc (ticks w))\<rparr>)"
proof (cases "getcol df ''event_timestamp''")
  case (Inl e)
  then show ?thesis by (rule no_timestamp) (simp add: transform_no_timestamp Inl)
next
  case ts: (Inr ts)
  show ?thesis
  proof (cases "getcol df ''country''")
    case (Inl e)
    then show ?thesis by (rule no_country) (rule transform_no_country [OF ts Inl])
  next
    case cs: (Inr cs)
    show ?thesis
    proof (cases "getcol df ''value''")
      case (Inl e)
      then show ?thesis by (rule no_value) (rule transform_no_value [OF ts cs Inl])
    next
      case vs: (Inr vs)
      show ?thesis
      proof (cases "0 < height df \<or> ''processing_datetime'' \<in> set (map fst (cols df))")
        case False
        then show ?thesis by (rule no_rows) (rule transform_no_rows [OF ts cs vs False])
      next
        case ok: True
        show ?thesis
        proof (cases "getcol df ''user_id''")
          case (Inl e)
          then show ?thesis
            by (rule no_user_id) (rule transform_no_user_id [OF ts cs vs ok Inl])
        next
          case us: (Inr us)
          from us ts cs vs ok transform_columns [OF us ts cs vs ok] show ?thesis
            by (rule through)
        qed
      qed
    qed
  qed
qed

lemma transform_InrD:
  assumes "transform L df w = (Inr out, w')"
  shows "\<exists>us ts cs vs.
      getcol df ''user_id'' = Inr us \<and> getcol df ''event_timestamp'' = Inr ts \<and>
      getcol df ''country'' = Inr cs \<and> getcol df ''value'' = Inr vs \<and>
      out = target_frame L (clock w (ticks w)) (clock w (Suc (ticks w))) (height df) us ts cs vs \<and>
      w' = w\<lparr>ticks := Suc (Suc (ticks w))\<rparr>"
proof (cases rule: transform_cases [of df L w])
  case (through us ts cs vs)
  with assms show ?thesis by auto
qed (use assms in simp_all)

lemma map_of_row_at:
  "map_of (row_at df i) k = map_option (\<lambda>c. c ! i) (map_of (cols df) k)"
  by (simp add: row_at_def map_of_map)

lemma getcol_Inr_iff: "getcol df k = Inr c \<longleftrightarrow> map_of (cols df) k = Some c"
  by (simp add: getcol_def split: option.splits)

lemma wf_col_length:
  assumes "wf_frame df" "getcol df k = Inr c"
  shows "length c = height df"
proof -
  from assms(2) have "(k, c) \<in> set (cols df)"
    by (simp add: getcol_Inr_iff map_of_SomeD)
  with assms(1) show ?thesis
    by (auto simp: wf_frame_def list_all_iff)
qed


lemma row_target_frame:
  "map_of (row_at (target_frame L now utcnow n us ts cs vs) i) k =
     (if k = ''user_id'' then Some (us ! i)
      else if k = ''event_timestamp''
        then Some (map (\<lambda>c. Ts (normalized_timestamp L ts now c)) ts ! i)
      else if k = ''country_code'' then Some (map (\<lambda>c. Str (country_code_of L c)) cs ! i)
      else if k = ''value'' then Some (map (\<lambda>c. Num (coerced_value L c)) vs ! i)
      else if k = ''is_high_value'' then Some (map (\<lambda>c. Bool (num_gt (coerced_value L c) 100)) vs ! i)
      else if k = ''processing_datetime'' then Some (replicate n (Dt utcnow) ! i)
      else None)"
  by (simp add: row_at_def target_frame_def)

lemma row_raw:
  assumes "getcol df k = Inr c"
  shows "map_of (row_at df i) k = Some (c ! i)"
  using assms by (simp add: map_of_row_at getcol_Inr_iff)

subsection \<open>The concrete run, evaluated\<close>

lemma upper_malaysia: "ascii_upper ''malaysia'' = ''MALAYSIA''"
  by code_simp

lemma upper_vietnam: "ascii_upper ''Vietnam'' = ''VIETNAM''"
  by code_simp

lemma upper_OT: "ascii_upper ''OT'' = ''OT''"
  by code_simp

lemma upper_singapore: "ascii_upper ''Singapore'' = ''SINGAPORE''"
  by code_simp

lemma upper_thailand: "ascii_upper ''Thailand'' = ''THAILAND''"
  by code_simp

lemmas example_defs =
  getcol_def setcol_def example_pandas_def example_datetime_of_def to_datetime_coerce_def
  to_datetime_raise_def fillna_def to_numeric_coerce_def astype_str_def str_upper_def
  map_dict_def series_gt_def country_mapping_def upper_malaysia upper_vietnam upper_OT
  upper_singapore upper_thailand numeral_2_eq_2 numeral_3_eq_3

lemma example_run_any:
  assumes "clock w (ticks w) = 1700000000" and "clock w (Suc (ticks w)) = 1700000001"
  shows "transform example_pandas example_frame w
     = (Inr example_target, w\<lparr>ticks := Suc (Suc (ticks w))\<rparr>)"
  using assms
  by (simp add: transform_defs example_defs example_frame_def example_target_def)

lemma example_run:
  "transform example_pandas example_frame example_world
     = (Inr example_target, example_world\<lparr>ticks := 2\<rparr>)"
proof -
  have "transform example_pandas example_frame example_world
      = (Inr example_target, example_world\<lparr>ticks := Suc (Suc (ticks example_world))\<rparr>)"
    by (rule example_run_any) (simp_all add: example_world_def)
  then show ?thesis
    by (simp add: example_world_def)
qed




lemma example_wf: "wf_frame example_frame"
  by (simp add: wf_frame_def example_frame_def)

lemma example_frame_row:
  "map_of (row_at example_frame i) k =
     (if k = ''user_id'' then Some ([Str ''u1'', Str ''u2'', NA] ! i)
      else if k = ''event_timestamp''
        then Some ([Str ''not-a-date'', Str ''2024-01-01T00:00:00Z'', NA] ! i)
      else if k = ''country'' then Some ([Str ''malaysia'', Str ''Vietnam'', Str ''OT''] ! i)
      else if k = ''value'' then Some ([Str ''150'', Str ''abc'', NA] ! i)
      else if k = ''note'' then Some ([Str ''a'', Str ''b'', Str ''c''] ! i)
      else None)"
  by (simp add: row_at_def example_frame_def)

lemma example_target_row:
  "map_of (row_at example_target i) k =
     (if k = ''user_id'' then Some ([Str ''u1'', Str ''u2'', NA] ! i)
      else if k = ''event_timestamp''
        then Some ([Ts 1700000000, Ts 1704067200, Ts 1700000000] ! i)
      else if k = ''country_code'' then Some ([Str ''MY'', Str ''OT'', Str ''OT''] ! i)
      else if k = ''value'' then Some ([Num (Fin 150), Num (Fin 0), Num (Fin 0)] ! i)
      else if k = ''is_high_value'' then Some ([Bool True, Bool False, Bool False] ! i)
      else if k = ''processing_datetime''
        then Some ([Dt 1700000001, Dt 1700000001, Dt 1700000001] ! i)
      else None)"
  by (simp add: row_at_def example_target_def)

section \<open>The high-value flag\<close>

text \<open>
  Claim C1. In every row of the table that the transformation returns, \<^verbatim>\<open>value\<close> is the
  coerced raw value, that is the number the raw cell parses to, or 0.0 when it is missing
  or does not parse, and \<^verbatim>\<open>is_high_value\<close> is true exactly when that coerced value is
  strictly greater than 100.0. A row whose raw value does not parse has value 0.0 and the
  flag false.
\<close>

theorem high_value_flag:
  assumes "transform L df w = (Inr out, w')" and "wf_frame df" and "i < height df"
  shows "\<exists>raw. map_of (row_at df i) ''value'' = Some raw \<and>
     map_of (row_at out i) ''value'' = Some (Num (coerced_value L raw)) \<and>
     map_of (row_at out i) ''is_high_value'' = Some (Bool (num_gt (coerced_value L raw) 100)) \<and>
     (to_numeric_elem L raw = None \<longrightarrow>
        coerced_value L raw = Fin 0 \<and> \<not> num_gt (coerced_value L raw) 100)"
proof -
  from transform_InrD [OF assms(1)] obtain us ts cs vs where
    vs: "getcol df ''value'' = Inr vs" and
    out: "out = target_frame L (clock w (ticks w)) (clock w (Suc (ticks w))) (height df) us ts cs vs"
    by blast
  from wf_col_length [OF assms(2) vs] assms(3) have i: "i < length vs" by simp
  have raw: "map_of (row_at df i) ''value'' = Some (vs ! i)"
    by (rule row_raw [OF vs])
  have val: "map_of (row_at out i) ''value'' = Some (Num (coerced_value L (vs ! i)))"
    using i by (simp add: out row_target_frame)
  have flag: "map_of (row_at out i) ''is_high_value''
      = Some (Bool (num_gt (coerced_value L (vs ! i)) 100))"
    using i by (simp add: out row_target_frame)
  have dflt: "to_numeric_elem L (vs ! i) = None \<longrightarrow>
      coerced_value L (vs ! i) = Fin 0 \<and> \<not> num_gt (coerced_value L (vs ! i)) 100"
    by (simp add: coerced_value_def)
  from raw val flag dflt show ?thesis
    by (intro exI [of _ "vs ! i"] conjI)
qed

theorem high_value_flag_witness:
  "transform example_pandas example_frame example_world
     = (Inr example_target, example_world\<lparr>ticks := 2\<rparr>) \<and>
   wf_frame example_frame \<and> 1 < height example_frame \<and>
   map_of (row_at example_frame 1) ''value'' = Some (Str ''abc'') \<and>
   to_numeric_elem example_pandas (Str ''abc'') = None \<and>
   map_of (row_at example_target 1) ''value'' = Some (Num (Fin 0)) \<and>
   map_of (row_at example_target 1) ''is_high_value'' = Some (Bool False)"
proof -
  have i: "1 < height example_frame"
    by (simp add: example_frame_def)
  have raw: "map_of (row_at example_frame 1) ''value'' = Some (Str ''abc'')"
    by (simp add: example_frame_row)
  have unparsed: "to_numeric_elem example_pandas (Str ''abc'') = None"
    by (simp add: example_pandas_def)
  from high_value_flag [OF example_run example_wf i] raw unparsed
  have "map_of (row_at example_target 1) ''value'' = Some (Num (Fin 0)) \<and>
        map_of (row_at example_target 1) ''is_high_value'' = Some (Bool False)"
    by auto
  with example_run example_wf i raw unparsed show ?thesis
    by simp
qed

section \<open>Country codes\<close>

lemma upper_MY: "ascii_upper ''MY'' = ''MY''"
  by code_simp

lemma upper_SG: "ascii_upper ''SG'' = ''SG''"
  by code_simp

lemma upper_TH: "ascii_upper ''TH'' = ''TH''"
  by code_simp

lemma upper_ID: "ascii_upper ''ID'' = ''ID''"
  by code_simp

lemma ascii_codes: "is_ascii ''MY''" "is_ascii ''SG''" "is_ascii ''TH''" "is_ascii ''ID''"
  by (simp_all add: is_ascii_def)

lemma country_code_of_range:
  "country_code_of L c \<in> {''MY'', ''SG'', ''TH'', ''ID'', ''OT''}"
  by (simp add: country_code_of_def country_mapping_def split: option.splits)

lemma country_code_of_fixpoint:
  assumes "upper_on_ascii L" and "country_code_of L (Str s) = s"
  shows "s = ''OT''"
proof -
  from assms(1) have up: "upper_of L ''MY'' = ''MY''" "upper_of L ''SG'' = ''SG''"
    "upper_of L ''TH'' = ''TH''" "upper_of L ''ID'' = ''ID''"
    by (simp_all add: upper_on_ascii_def ascii_codes upper_MY upper_SG upper_TH upper_ID)
  from country_code_of_range [of L "Str s"] assms(2)
  consider "s = ''MY''" | "s = ''SG''" | "s = ''TH''" | "s = ''ID''" | "s = ''OT''"
    by auto
  then show ?thesis
  proof cases
    case 1
    with assms(2) show ?thesis by (simp add: country_code_of_def country_mapping_def up)
  next
    case 2
    with assms(2) show ?thesis by (simp add: country_code_of_def country_mapping_def up)
  next
    case 3
    with assms(2) show ?thesis by (simp add: country_code_of_def country_mapping_def up)
  next
    case 4
    with assms(2) show ?thesis by (simp add: country_code_of_def country_mapping_def up)
  next
    case 5
    then show ?thesis .
  qed
qed

lemma example_upper_on_ascii: "upper_on_ascii example_pandas"
  by (simp add: upper_on_ascii_def example_pandas_def)

text \<open>
  Claim C2, as amended. In every row, \<^verbatim>\<open>country_code\<close> is the raw \<^verbatim>\<open>country\<close> printed
  as a string, uppercased by \<^verbatim>\<open>str.upper\<close> and looked up in the fixed table MALAYSIA to
  MY, SINGAPORE to SG, THAILAND to TH, INDONESIA to ID, with OT for every value that is not
  a key (a missing value among them). It is one of MY, SG, TH, ID and OT, it is never
  empty, and it equals the raw input string only when that string is OT itself. The last
  part uses of \<^verbatim>\<open>str.upper\<close> only what it does to the ASCII strings.
\<close>

theorem country_code_rule:
  assumes "transform L df w = (Inr out, w')" and "wf_frame df" and "i < height df"
  shows "\<exists>raw. map_of (row_at df i) ''country'' = Some raw \<and>
     map_of (row_at out i) ''country_code'' = Some (Str (country_code_of L raw)) \<and>
     country_code_of L raw
       = (case country_mapping (upper_of L (astype_str_elem L raw)) of
            None \<Rightarrow> ''OT''
          | Some v \<Rightarrow> v) \<and>
     country_code_of L raw \<in> {''MY'', ''SG'', ''TH'', ''ID'', ''OT''} \<and>
     country_code_of L raw \<noteq> [] \<and>
     (upper_on_ascii L \<and> raw = Str (country_code_of L raw) \<longrightarrow> raw = Str ''OT'')"
proof -
  from transform_InrD [OF assms(1)] obtain us ts cs vs where
    cs: "getcol df ''country'' = Inr cs" and
    out: "out = target_frame L (clock w (ticks w)) (clock w (Suc (ticks w))) (height df) us ts cs vs"
    by blast
  from wf_col_length [OF assms(2) cs] assms(3) have i: "i < length cs" by simp
  have raw: "map_of (row_at df i) ''country'' = Some (cs ! i)"
    by (rule row_raw [OF cs])
  have code: "map_of (row_at out i) ''country_code'' = Some (Str (country_code_of L (cs ! i)))"
    using i by (simp add: out row_target_frame)
  have rule: "country_code_of L (cs ! i)
      = (case country_mapping (upper_of L (astype_str_elem L (cs ! i))) of
           None \<Rightarrow> ''OT''
         | Some v \<Rightarrow> v)"
    by (simp add: country_code_of_def)
  have range: "country_code_of L (cs ! i) \<in> {''MY'', ''SG'', ''TH'', ''ID'', ''OT''}"
    by (rule country_code_of_range)
  from range have nonempty: "country_code_of L (cs ! i) \<noteq> []"
    by auto
  have "upper_on_ascii L \<and> cs ! i = Str (country_code_of L (cs ! i)) \<longrightarrow> cs ! i = Str ''OT''"
  proof
    assume "upper_on_ascii L \<and> cs ! i = Str (country_code_of L (cs ! i))"
    then have up: "upper_on_ascii L" and eq: "cs ! i = Str (country_code_of L (cs ! i))"
      by simp_all
    from eq have "country_code_of L (Str (country_code_of L (cs ! i))) = country_code_of L (cs ! i)"
      by simp
    with up have "country_code_of L (cs ! i) = ''OT''"
      by (rule country_code_of_fixpoint)
    with eq show "cs ! i = Str ''OT''" by simp
  qed
  with raw code rule range nonempty show ?thesis
    by (intro exI [of _ "cs ! i"] conjI)
qed

theorem country_code_rule_witness:
  "transform example_pandas example_frame example_world
     = (Inr example_target, example_world\<lparr>ticks := 2\<rparr>) \<and>
   wf_frame example_frame \<and> 2 < height example_frame \<and>
   upper_on_ascii example_pandas \<and>
   map_of (row_at example_frame 2) ''country'' = Some (Str ''OT'') \<and>
   Str ''OT'' = Str (country_code_of example_pandas (Str ''OT'')) \<and>
   map_of (row_at example_target 2) ''country_code'' = Some (Str ''OT'')"
proof -
  have i: "2 < height example_frame"
    by (simp add: example_frame_def)
  have raw: "map_of (row_at example_frame 2) ''country'' = Some (Str ''OT'')"
    by (simp add: example_frame_row)
  have code: "country_code_of example_pandas (Str ''OT'') = ''OT''"
    by (simp add: country_code_of_def country_mapping_def example_pandas_def upper_OT)
  from country_code_rule [OF example_run example_wf i] raw code
  have "map_of (row_at example_target 2) ''country_code'' = Some (Str ''OT'')"
    by auto
  with example_run example_wf i raw code example_upper_on_ascii show ?thesis
    by simp
qed

theorem country_code_raw_counterexample:
  "fst (transform example_pandas example_frame example_world) = Inr example_target \<and>
   map_of (row_at example_frame 2) ''country'' = Some (Str ''OT'') \<and>
   map_of (row_at example_target 2) ''country_code'' = Some (Str ''OT'')"
  by (simp add: example_run example_frame_row example_target_row)

section \<open>The extension filter and the check of the names\<close>

lemma lower_Events_CSV: "lower ''Events.CSV'' = ''events.csv''"
  by code_simp

lemma lower_notes_txt: "lower ''notes.txt'' = ''notes.txt''"
  by code_simp

lemma lower_README_md: "lower ''README.md'' = ''readme.md''"
  by code_simp

text \<open>
  Claim C8. An event whose object key, lowercased, does not end in \<^verbatim>\<open>.csv\<close> ends the
  invocation successfully and leaves the world as it was: no request to the object store,
  no clock reading, no load job, no change to any table, and no error.
\<close>

theorem non_csv_skipped:
  assumes "\<not> endswith (lower (name ev)) ''.csv''"
  shows "process_gcs_csv_to_bq L ev w = (Inr (), w)"
  using assms by (simp add: process_gcs_csv_to_bq_def)

theorem non_csv_skipped_witness:
  "\<not> endswith (lower (name readme_event)) ''.csv'' \<and>
   process_gcs_csv_to_bq example_pandas readme_event example_world = (Inr (), example_world)"
proof -
  have other: "\<not> endswith (lower (name readme_event)) ''.csv''"
    by (simp add: readme_event_def lower_README_md endswith_def suffix_to_prefix)
  from non_csv_skipped [OF other] other show ?thesis
    by simp
qed

text \<open>
  Claim C3, as amended. An event whose object key ends in \<^verbatim>\<open>.csv\<close>, compared
  case-insensitively, and whose container name is the empty string fails with the
  \<^verbatim>\<open>ValueError\<close> of line 54 before any request is sent. The extension filter of line 42
  runs first, so an event whose key does not end in \<^verbatim>\<open>.csv\<close> is skipped whatever its
  names are.
\<close>

theorem empty_bucket_rejected:
  assumes "endswith (lower (name ev)) ''.csv''" and "bucket ev = []"
  shows "process_gcs_csv_to_bq L ev w = (Inl ValueError, w)"
  using assms by (simp add: process_gcs_csv_to_bq_def download_def)

theorem empty_bucket_rejected_witness:
  "endswith (lower (name no_bucket_csv_event)) ''.csv'' \<and> bucket no_bucket_csv_event = [] \<and>
   process_gcs_csv_to_bq example_pandas no_bucket_csv_event example_world
     = (Inl ValueError, example_world)"
proof -
  have csv: "endswith (lower (name no_bucket_csv_event)) ''.csv''"
    by (simp add: no_bucket_csv_event_def lower_Events_CSV endswith_def suffix_def)
  have empty: "bucket no_bucket_csv_event = []"
    by (simp add: no_bucket_csv_event_def)
  from empty_bucket_rejected [OF csv empty] csv empty show ?thesis
    by simp
qed

theorem empty_bucket_skipped_counterexample:
  "bucket no_bucket_notes_event = [] \<and>
   process_gcs_csv_to_bq example_pandas no_bucket_notes_event example_world
     = (Inr (), example_world)"
  by (simp add: process_gcs_csv_to_bq_def no_bucket_notes_event_def lower_notes_txt
      endswith_def suffix_to_prefix)

section \<open>Timestamps\<close>


lemma example_read_csv: "read_csv example_pandas example_csv = Inr example_frame"
  by (simp add: example_pandas_def)

lemma example_download:
  "download example_event example_world_later = (Inr example_csv, example_world_fetched)"
  by (simp add: download_def example_event_def example_world_later_def example_world_def
      example_world_fetched_def)

lemma example_run_fetched:
  "transform example_pandas example_frame example_world_fetched
     = (Inr example_target, example_world_fetched\<lparr>ticks := 7\<rparr>)"
proof -
  have "transform example_pandas example_frame example_world_fetched
      = (Inr example_target,
         example_world_fetched\<lparr>ticks := Suc (Suc (ticks example_world_fetched))\<rparr>)"
    by (rule example_run_any)
      (simp_all add: example_world_fetched_def example_world_later_def example_world_def)
  then show ?thesis
    by (simp add: example_world_fetched_def example_world_later_def example_world_def)
qed



section \<open>The processing timestamp\<close>

text \<open>
  Claim C5, as amended. Every row of the table that one run returns has the same
  \<^verbatim>\<open>processing_datetime\<close>: a naive datetime, set once, at line 128, to the wall-clock time
  read there. That reading is the second of the transformation, made after the timestamp,
  country and value rules have run and after the reading that fills the timestamp gaps;
  it is not a reading made at the start of the transformation.
\<close>

theorem processing_datetime_rule:
  assumes "transform L df w = (Inr out, w')"
  shows "getcol out ''processing_datetime''
           = Inr (replicate (height df) (Dt (clock w (Suc (ticks w))))) \<and>
         height out = height df \<and>
         (\<forall>i<height out.
            map_of (row_at out i) ''processing_datetime'' = Some (Dt (clock w (Suc (ticks w))))) \<and>
         ticks w' = ticks w + 2"
proof -
  from transform_InrD [OF assms] obtain us ts cs vs where
    out: "out = target_frame L (clock w (ticks w)) (clock w (Suc (ticks w))) (height df) us ts cs vs"
    and w': "w' = w\<lparr>ticks := Suc (Suc (ticks w))\<rparr>"
    by blast
  have col: "getcol out ''processing_datetime''
      = Inr (replicate (height df) (Dt (clock w (Suc (ticks w)))))"
    by (simp add: out target_frame_def getcol_def)
  have h: "height out = height df"
    by (simp add: out target_frame_def)
  have rows: "\<forall>i<height out.
      map_of (row_at out i) ''processing_datetime'' = Some (Dt (clock w (Suc (ticks w))))"
    by (simp add: h) (simp add: out row_target_frame)
  have "ticks w' = ticks w + 2"
    by (simp add: w')
  with col h rows show ?thesis
    by (intro conjI)
qed

theorem processing_datetime_rule_witness:
  "transform example_pandas example_frame example_world
     = (Inr example_target, example_world\<lparr>ticks := 2\<rparr>) \<and>
   getcol example_target ''processing_datetime''
     = Inr [Dt 1700000001, Dt 1700000001, Dt 1700000001] \<and>
   2 < height example_target \<and>
   map_of (row_at example_target 2) ''processing_datetime'' = Some (Dt 1700000001)"
proof -
  have i: "2 < height example_target"
    by (simp add: example_target_def)
  have utcnow: "clock example_world (Suc (ticks example_world)) = 1700000001"
    by (simp add: example_world_def)
  have h: "height example_frame = 3"
    by (simp add: example_frame_def)
  from processing_datetime_rule [OF example_run] i utcnow h
  have "getcol example_target ''processing_datetime''
          = Inr [Dt 1700000001, Dt 1700000001, Dt 1700000001] \<and>
        map_of (row_at example_target 2) ''processing_datetime'' = Some (Dt 1700000001)"
    by (auto simp: numeral_3_eq_3)
  with example_run i show ?thesis
    by simp
qed

theorem processing_datetime_start_counterexample:
  "fst (transform example_pandas example_frame example_world) = Inr example_target \<and>
   clock example_world (ticks example_world) = 1700000000 \<and>
   map_of (row_at example_target 0) ''event_timestamp'' = Some (Ts 1700000000) \<and>
   map_of (row_at example_target 0) ''processing_datetime'' = Some (Dt 1700000001)"
  by (simp add: example_run example_target_row) (simp add: example_world_def)

section \<open>The target schema\<close>

text \<open>
  Claim C6, as amended. The table that the transformation returns has exactly the six
  columns \<^verbatim>\<open>user_id\<close>, \<^verbatim>\<open>event_timestamp\<close>, \<^verbatim>\<open>country_code\<close>, \<^verbatim>\<open>value\<close>,
  \<^verbatim>\<open>is_high_value\<close>, \<^verbatim>\<open>processing_datetime\<close>, in that order, so every other column of the
  input is dropped. In every row the last five hold a value that is not missing;
  \<^verbatim>\<open>user_id\<close> is the input's cell unchanged, missing where the input's is missing.
\<close>

theorem target_schema:
  assumes "transform L df w = (Inr out, w')" and "wf_frame df" and "i < height df"
  shows "map fst (cols out) = target_columns \<and>
         map fst (row_at out i) = target_columns \<and>
         (\<forall>k\<in>set target_columns. k \<noteq> ''user_id'' \<longrightarrow>
            (\<exists>c. map_of (row_at out i) k = Some c \<and> c \<noteq> NA)) \<and>
         map_of (row_at out i) ''user_id'' = map_of (row_at df i) ''user_id''"
proof -
  from transform_InrD [OF assms(1)] obtain us ts cs vs where
    us: "getcol df ''user_id'' = Inr us" and
    ts: "getcol df ''event_timestamp'' = Inr ts" and
    cs: "getcol df ''country'' = Inr cs" and
    vs: "getcol df ''value'' = Inr vs" and
    out: "out = target_frame L (clock w (ticks w)) (clock w (Suc (ticks w))) (height df) us ts cs vs"
    by blast
  from assms(2,3) ts cs vs have len: "i < length ts" "i < length cs" "i < length vs"
    by (simp_all add: wf_col_length)
  have names: "map fst (cols out) = target_columns"
    by (simp add: out target_frame_def target_columns_def)
  have row_names: "map fst (row_at out i) = target_columns"
    by (simp add: out row_at_def target_frame_def target_columns_def)
  have filled: "\<forall>k\<in>set target_columns. k \<noteq> ''user_id'' \<longrightarrow>
      (\<exists>c. map_of (row_at out i) k = Some c \<and> c \<noteq> NA)"
    using len assms(3) by (simp add: target_columns_def out row_target_frame)
  have "map_of (row_at out i) ''user_id'' = map_of (row_at df i) ''user_id''"
    by (simp add: out row_target_frame row_raw [OF us])
  with names row_names filled show ?thesis
    by (intro conjI)
qed

theorem target_schema_witness:
  "transform example_pandas example_frame example_world
     = (Inr example_target, example_world\<lparr>ticks := 2\<rparr>) \<and>
   wf_frame example_frame \<and> 2 < height example_frame \<and>
   ''note'' \<in> set (map fst (cols example_frame)) \<and>
   map fst (row_at example_target 2) = target_columns \<and>
   ''value'' \<in> set target_columns \<and> ''value'' \<noteq> ''user_id'' \<and>
   map_of (row_at example_target 2) ''value'' = Some (Num (Fin 0)) \<and>
   map_of (row_at example_target 2) ''user_id'' = Some NA"
proof -
  have i: "2 < height example_frame"
    by (simp add: example_frame_def)
  have extra: "''note'' \<in> set (map fst (cols example_frame))"
    by (simp add: example_frame_def)
  have k: "''value'' \<in> set target_columns" "''value'' \<noteq> ''user_id''"
    by (simp_all add: target_columns_def)
  have raw: "map_of (row_at example_frame 2) ''user_id'' = Some NA"
    by (simp add: example_frame_row)
  have v: "map_of (row_at example_target 2) ''value'' = Some (Num (Fin 0))"
    by (simp add: example_target_row)
  from target_schema [OF example_run example_wf i] raw
  have "map fst (row_at example_target 2) = target_columns \<and>
        map_of (row_at example_target 2) ''user_id'' = Some NA"
    by simp
  with example_run example_wf i extra k v show ?thesis
    by simp
qed

theorem missing_user_id_counterexample:
  "fst (transform example_pandas example_frame example_world) = Inr example_target \<and>
   map_of (row_at example_frame 2) ''user_id'' = Some NA \<and>
   map_of (row_at example_target 2) ''user_id'' = Some NA"
  by (simp add: example_run example_frame_row example_target_row)

section \<open>Determinism\<close>

text \<open>
  Claim C7. The transformation is deterministic: two runs on the same frame, in worlds that
  show the same two clock readings and may differ in everything else, return the same
  result, be it the table or the exception.
\<close>

theorem transform_deterministic:
  assumes "clock w1 (ticks w1) = clock w2 (ticks w2)"
    and "clock w1 (Suc (ticks w1)) = clock w2 (Suc (ticks w2))"
  shows "fst (transform L df w1) = fst (transform L df w2)"
proof (cases "getcol df ''event_timestamp''")
  case (Inl e)
  then show ?thesis by (simp add: transform_no_timestamp)
next
  case ts: (Inr ts)
  show ?thesis
  proof (cases "getcol df ''country''")
    case (Inl e)
    with ts show ?thesis by (simp add: transform_no_country)
  next
    case cs: (Inr cs)
    show ?thesis
    proof (cases "getcol df ''value''")
      case (Inl e)
      with ts cs show ?thesis by (simp add: transform_no_value)
    next
      case vs: (Inr vs)
      show ?thesis
      proof (cases "0 < height df \<or> ''processing_datetime'' \<in> set (map fst (cols df))")
        case False
        then show ?thesis by (simp only: transform_no_rows [OF ts cs vs False] fst_conv)
      next
        case ok: True
        show ?thesis
        proof (cases "getcol df ''user_id''")
          case (Inl e)
          then show ?thesis by (simp only: transform_no_user_id [OF ts cs vs ok Inl] fst_conv)
        next
          case us: (Inr us)
          from assms show ?thesis
            by (simp add: transform_columns [OF us ts cs vs ok])
        qed
      qed
    qed
  qed
qed

theorem transform_deterministic_witness:
  "clock example_world (ticks example_world) = clock example_world_later (ticks example_world_later) \<and>
   clock example_world (Suc (ticks example_world))
     = clock example_world_later (Suc (ticks example_world_later)) \<and>
   tables example_world ''t'' \<noteq> tables example_world_later ''t'' \<and>
   fst (transform example_pandas example_frame example_world_later) = Inr example_target"
proof -
  have r1: "clock example_world (ticks example_world)
      = clock example_world_later (ticks example_world_later)"
    by (simp add: example_world_later_def example_world_def)
  have r2: "clock example_world (Suc (ticks example_world))
      = clock example_world_later (Suc (ticks example_world_later))"
    by (simp add: example_world_later_def example_world_def)
  have other: "tables example_world ''t'' \<noteq> tables example_world_later ''t''"
    by (simp add: example_world_later_def example_world_def)
  from transform_deterministic [OF r1 r2, of example_pandas example_frame]
  have "fst (transform example_pandas example_frame example_world_later) = Inr example_target"
    by (simp add: example_run)
  with r1 r2 other show ?thesis
    by simp
qed

section \<open>One output row for each input row\<close>










section \<open>The load\<close>

lemma download_warehouse:
  assumes "download ev w = (r, w1)"
  shows "tables w1 = tables w \<and> pending w1 = pending w"
  using assms by (auto simp: download_def split: if_splits sum.splits)

lemma transform_world:
  "tables (snd (transform L df w)) = tables w \<and> pending (snd (transform L df w)) = pending w"
  by (cases rule: transform_cases [of df L w]) simp_all

lemma transform_warehouse:
  assumes "transform L df w = (r, w')"
  shows "tables w' = tables w \<and> pending w' = pending w"
  using transform_world [of L df w] assms by simp

lemma load_appends:
  assumes "load final_df w = (r, w')"
  shows "pending w' = pending w \<and>
     (tables w' = tables w \<and> r \<noteq> Inr () \<or>
      tables w' = (tables w)(table_id_full := tables w table_id_full @ rows_of final_df))"
  using assms
  by (auto simp: load_def load_table_from_dataframe_def job_result_def get_table_def Let_def
      split: option.splits sum.splits)

lemma lower_events_csv: "lower ''events.csv'' = ''events.csv''"
  by code_simp

lemma example_process:
  "process_gcs_csv_to_bq example_pandas example_event example_world_later
     = (Inr (), example_world_loaded)"
proof -
  have csv: "endswith (lower (name example_event)) ''.csv''"
    by (simp add: example_event_def lower_events_csv endswith_def suffix_def)
  have l: "load example_target (example_world_fetched\<lparr>ticks := 7\<rparr>)
      = (Inr (), example_world_loaded)"
    by (simp add: load_def load_table_from_dataframe_def job_result_def get_table_def Let_def
        example_world_fetched_def example_world_later_def example_world_def
        example_world_loaded_def example_job_def)
  show ?thesis
    unfolding process_gcs_csv_to_bq_def
    by (simp only: csv not_True_eq_False if_False example_download example_read_csv
        example_run_fetched l prod.case sum.case)
qed

text \<open>
  Claim C9. The load is append-only. The job that the function submits carries the
  disposition \<^verbatim>\<open>WRITE_APPEND\<close>, so, however the invocation ends, every table of the
  warehouse keeps the rows it had, unchanged and in their places, as a prefix of what it
  holds afterwards; only the target table can change, and only by rows added at its end.
  The function returns after \<^verbatim>\<open>job.result()\<close> has returned: no job that it submitted is
  still pending when it ends.
\<close>

theorem load_append_only:
  assumes "process_gcs_csv_to_bq L ev w = (r, w')"
  shows "(\<forall>t. prefix (tables w t) (tables w' t)) \<and>
     (\<exists>rows. tables w' = (tables w)(table_id_full := tables w table_id_full @ rows)) \<and>
     pending w' = pending w"
proof -
  have same: "(\<forall>t. prefix (tables w t) (tables v t)) \<and>
     (\<exists>rows. tables v = (tables w)(table_id_full := tables w table_id_full @ rows)) \<and>
     pending v = pending w" if "tables v = tables w" and "pending v = pending w" for v
  proof -
    from that(1) have "tables v = (tables w)(table_id_full := tables w table_id_full @ [])"
      by simp
    then have "\<exists>rows. tables v = (tables w)(table_id_full := tables w table_id_full @ rows)"
      by (rule exI)
    moreover from that(1) have "\<forall>t. prefix (tables w t) (tables v t)"
      by simp
    ultimately show ?thesis using that(2) by blast
  qed
  show ?thesis
  proof (cases "endswith (lower (name ev)) ''.csv''")
    case False
    with assms have "w' = w"
      by (simp add: process_gcs_csv_to_bq_def)
    then have "tables w' = tables w" and "pending w' = pending w"
      by simp_all
    then show ?thesis by (rule same)
  next
    case csv: True
    obtain r1 w1 where d: "download ev w = (r1, w1)"
      by (cases "download ev w")
    from download_warehouse [OF d] have w1: "tables w1 = tables w" "pending w1 = pending w"
      by simp_all
    show ?thesis
    proof (cases r1)
      case (Inl e)
      with assms csv d have "w' = w1"
        by (simp add: process_gcs_csv_to_bq_def)
      with w1 have "tables w' = tables w" and "pending w' = pending w"
        by simp_all
      then show ?thesis by (rule same)
    next
      case content: (Inr csv_data_string)
      show ?thesis
      proof (cases "read_csv L csv_data_string")
        case (Inl e)
        with assms csv d content have "w' = w1"
          by (simp add: process_gcs_csv_to_bq_def)
        with w1 have "tables w' = tables w" and "pending w' = pending w"
          by simp_all
        then show ?thesis by (rule same)
      next
        case df: (Inr df)
        obtain r2 w2 where t: "transform L df w1 = (r2, w2)"
          by (cases "transform L df w1")
        from transform_warehouse [OF t] w1
        have w2: "tables w2 = tables w" "pending w2 = pending w"
          by simp_all
        show ?thesis
        proof (cases r2)
          case (Inl e)
          with assms csv d content df t have "w' = w2"
            by (simp add: process_gcs_csv_to_bq_def)
          with w2 have "tables w' = tables w" and "pending w' = pending w"
            by simp_all
          then show ?thesis by (rule same)
        next
          case (Inr final_df)
          with assms csv d content df t have l: "load final_df w2 = (r, w')"
            by (simp add: process_gcs_csv_to_bq_def)
          from load_appends [OF l] have q': "pending w' = pending w2"
            and a': "tables w' = tables w2 \<and> r \<noteq> Inr () \<or>
              tables w' = (tables w2)(table_id_full := tables w2 table_id_full @ rows_of final_df)"
            by blast+
          from q' w2 have q: "pending w' = pending w"
            by simp
          from a' have a: "tables w' = tables w \<or>
              tables w' = (tables w)(table_id_full := tables w table_id_full @ rows_of final_df)"
            unfolding w2 by blast
          from a show ?thesis
          proof
            assume "tables w' = tables w"
            from this q show ?thesis by (rule same)
          next
            assume app: "tables w' =
              (tables w)(table_id_full := tables w table_id_full @ rows_of final_df)"
            then have "\<exists>rows. tables w' =
                (tables w)(table_id_full := tables w table_id_full @ rows)"
              by (rule exI)
            moreover have "\<forall>t. prefix (tables w t) (tables w' t)"
              unfolding app by simp
            ultimately show ?thesis using q by blast
          qed
        qed
      qed
    qed
  qed
qed

theorem load_append_only_witness:
  "process_gcs_csv_to_bq example_pandas example_event example_world_later
     = (Inr (), example_world_loaded) \<and>
   tables example_world_later table_id_full = [[(''user_id'', Str ''u0'')]] \<and>
   tables example_world_loaded table_id_full
     = [(''user_id'', Str ''u0'')] # rows_of example_target \<and>
   prefix (tables example_world_later table_id_full) (tables example_world_loaded table_id_full) \<and>
   pending example_world_loaded = pending example_world_later"
proof -
  have before: "tables example_world_later table_id_full = [[(''user_id'', Str ''u0'')]]"
    by (simp add: example_world_later_def)
  have after: "tables example_world_loaded table_id_full
      = [(''user_id'', Str ''u0'')] # rows_of example_target"
    by (simp add: example_world_loaded_def)
  from load_append_only [OF example_process]
  have "prefix (tables example_world_later table_id_full)
          (tables example_world_loaded table_id_full) \<and>
        pending example_world_loaded = pending example_world_later"
    by blast
  with example_process before after show ?thesis
    by simp
qed

end
